theory Spec2Isabelle
  imports Complex_Main "HOL-Library.Word" "HOL-Library.AList"
begin

unbundle bit_operations_syntax

section \<open>JavaScript strings\<close>

text \<open>
  A JavaScript string is a sequence of 16-bit UTF-16 code units. String literals of the
  source are written \<open>str ''...''\<close>; all literals of the source are ASCII.
\<close>

type_synonym jsstring = "16 word list"

definition str :: "string \<Rightarrow> jsstring" where
  "str s = map (\<lambda>c. of_nat (of_char c)) s"

definition hyphen :: "16 word" where
  "hyphen = 0x2D"

definition underscore :: "16 word" where
  "underscore = 0x5F"

definition space :: "16 word" where
  "space = 0x20"

text \<open>
  The class \<open>\s\<close> of a regular expression, which is also what \<open>trim()\<close> removes:
  the WhiteSpace and LineTerminator code points of ECMAScript.
\<close>

definition isSpace :: "16 word \<Rightarrow> bool" where
  "isSpace c \<longleftrightarrow>
     (0x09 \<le> c \<and> c \<le> 0x0D) \<or> c = 0x20 \<or> c = 0xA0 \<or> c = 0x1680 \<or>
     (0x2000 \<le> c \<and> c \<le> 0x200A) \<or> c = 0x2028 \<or> c = 0x2029 \<or> c = 0x202F \<or>
     c = 0x205F \<or> c = 0x3000 \<or> c = 0xFEFF"

text \<open>The class \<open>\w\<close> (no unicode flag): \<open>[A-Za-z0-9_]\<close>.\<close>

definition isWordChar :: "16 word \<Rightarrow> bool" where
  "isWordChar c \<longleftrightarrow>
     (0x30 \<le> c \<and> c \<le> 0x39) \<or> (0x41 \<le> c \<and> c \<le> 0x5A) \<or>
     (0x61 \<le> c \<and> c \<le> 0x7A) \<or> c = underscore"

definition trim :: "jsstring \<Rightarrow> jsstring" where
  "trim s = rev (dropWhile isSpace (rev (dropWhile isSpace s)))"

text \<open>\<open>s.split(sep)\<close> for a one-character separator; the result is never empty.\<close>

fun split :: "16 word \<Rightarrow> jsstring \<Rightarrow> jsstring list" where
  "split sep [] = [[]]"
| "split sep (c # cs) =
     (if c = sep then [] # split sep cs
      else (let r = split sep cs in (c # hd r) # tl r))"

text \<open>\<open>parts.join(sep)\<close>.\<close>

fun join :: "jsstring \<Rightarrow> jsstring list \<Rightarrow> jsstring" where
  "join sep [] = []"
| "join sep [p] = p"
| "join sep (p # q # ps) = p @ sep @ join sep (q # ps)"

text \<open>
  \<open>s.replace(/[C]+/g, r)\<close> for a character class \<open>C\<close>: every maximal run of
  characters of the class is replaced by \<open>r\<close>.
\<close>

function replaceRuns :: "(16 word \<Rightarrow> bool) \<Rightarrow> jsstring \<Rightarrow> jsstring \<Rightarrow> jsstring" where
  "replaceRuns P r [] = []"
| "replaceRuns P r (c # cs) =
     (if P c then r @ replaceRuns P r (dropWhile P cs) else c # replaceRuns P r cs)"
  by pat_completeness auto
termination
  by (relation "measure (\<lambda>(P, r, s). length s)")
     (auto simp: length_dropWhile_le less_Suc_eq_le)

text \<open>
  The two string methods that need the Unicode character database are parameters of the
  model: \<open>toLowerCase\<close> and \<open>normalize("NFKD")\<close>. So is the date parser behind
  \<open>new Date(s).getTime()\<close>, whose accepted formats are implementation-defined
  (\<open>None\<close> is the NaN of an invalid date, otherwise milliseconds since the epoch).
\<close>

record platform =
  toLowerCase :: "jsstring \<Rightarrow> jsstring"
  normalizeNFKD :: "jsstring \<Rightarrow> jsstring"
  dateParse :: "jsstring \<Rightarrow> int option"

text \<open>
  A date of the calendar written \<open>YYYY-MM-DD\<close> is midnight UTC of that day, in
  milliseconds since the epoch; \<open>daysFromCivil\<close> counts the days from 1970-01-01 in
  the proleptic Gregorian calendar.
\<close>

definition digitValue :: "16 word \<Rightarrow> nat option" where
  "digitValue c = (if 0x30 \<le> c \<and> c \<le> 0x39 then Some (unat c - 48) else None)"

fun digitsValue :: "nat \<Rightarrow> jsstring \<Rightarrow> nat option" where
  "digitsValue acc [] = Some acc"
| "digitsValue acc (c # cs) =
     (case digitValue c of None \<Rightarrow> None | Some d \<Rightarrow> digitsValue (10 * acc + d) cs)"

definition isLeapYear :: "nat \<Rightarrow> bool" where
  "isLeapYear y \<longleftrightarrow> y mod 400 = 0 \<or> (y mod 4 = 0 \<and> y mod 100 \<noteq> 0)"

definition daysInMonth :: "nat \<Rightarrow> nat \<Rightarrow> nat" where
  "daysInMonth y m =
     (if m = 2 then (if isLeapYear y then 29 else 28)
      else if m = 4 \<or> m = 6 \<or> m = 9 \<or> m = 11 then 30 else 31)"

definition daysFromCivil :: "int \<Rightarrow> int \<Rightarrow> int \<Rightarrow> int" where
  "daysFromCivil y m d =
     (let y' = (if m \<le> 2 then y - 1 else y);
          era = y' div 400;
          yoe = y' - era * 400;
          doy = (153 * (if m > 2 then m - 3 else m + 9) + 2) div 5 + d - 1;
          doe = yoe * 365 + yoe div 4 - yoe div 100 + doy
      in era * 146097 + doe - 719468)"

definition isoDateParse :: "jsstring \<Rightarrow> int option" where
  "isoDateParse s =
     (case split 0x2D s of
        [ys, ms, ds] \<Rightarrow>
          if length ys = 4 \<and> length ms = 2 \<and> length ds = 2 then
            (case (digitsValue 0 ys, digitsValue 0 ms, digitsValue 0 ds) of
               (Some y, Some m, Some d) \<Rightarrow>
                 if 1 \<le> m \<and> m \<le> 12 \<and> 1 \<le> d \<and> d \<le> daysInMonth y m
                 then Some (daysFromCivil (int y) (int m) (int d) * 86400000)
                 else None
             | _ \<Rightarrow> None)
          else None
      | _ \<Rightarrow> None)"

text \<open>
  A platform for the examples. It is exact on ASCII strings for \<open>toLowerCase\<close>
  (lower-casing of \<open>A-Z\<close>) and \<open>normalize\<close> (the identity), and its date parser is
  exact on the empty string, which is no date, and on the dates of the calendar written
  \<open>YYYY-MM-DD\<close>. Other input is outside what it stands for.
\<close>

definition asciiLower :: "16 word \<Rightarrow> 16 word" where
  "asciiLower c = (if 0x41 \<le> c \<and> c \<le> 0x5A then c + 0x20 else c)"

definition asciiPlatform :: platform where
  "asciiPlatform =
     \<lparr> toLowerCase = map asciiLower, normalizeNFKD = (\<lambda>s. s), dateParse = isoDateParse \<rparr>"

section \<open>SHA-256 and the hex digest\<close>

text \<open>
  \<open>crypto.createHash("sha256").update(url).digest("hex")\<close>: the string is encoded as
  UTF-8 (a lone surrogate becomes U+FFFD), hashed with SHA-256 (FIPS 180-4), and the 32
  digest bytes are written as 64 lowercase hexadecimal characters.
\<close>

definition utf8Replacement :: "8 word list" where
  "utf8Replacement = [0xEF, 0xBF, 0xBD]"

definition utf8Bmp :: "nat \<Rightarrow> 8 word list" where
  "utf8Bmp u =
     (if u < 0x80 then [of_nat u]
      else if u < 0x800 then [of_nat (0xC0 + u div 64), of_nat (0x80 + u mod 64)]
      else [of_nat (0xE0 + u div 4096), of_nat (0x80 + u div 64 mod 64), of_nat (0x80 + u mod 64)])"

definition utf8Astral :: "nat \<Rightarrow> 8 word list" where
  "utf8Astral cp =
     [of_nat (0xF0 + cp div 262144), of_nat (0x80 + cp div 4096 mod 64),
      of_nat (0x80 + cp div 64 mod 64), of_nat (0x80 + cp mod 64)]"

definition isHighSurrogate :: "16 word \<Rightarrow> bool" where
  "isHighSurrogate c \<longleftrightarrow> 0xD800 \<le> c \<and> c \<le> 0xDBFF"

definition isLowSurrogate :: "16 word \<Rightarrow> bool" where
  "isLowSurrogate c \<longleftrightarrow> 0xDC00 \<le> c \<and> c \<le> 0xDFFF"

fun utf8Encode :: "jsstring \<Rightarrow> 8 word list" where
  "utf8Encode [] = []"
| "utf8Encode [c] =
     (if isHighSurrogate c \<or> isLowSurrogate c then utf8Replacement else utf8Bmp (unat c))"
| "utf8Encode (c # d # ds) =
     (if isHighSurrogate c \<and> isLowSurrogate d
      then utf8Astral (0x10000 + (unat c - 0xD800) * 1024 + (unat d - 0xDC00)) @ utf8Encode ds
      else if isHighSurrogate c \<or> isLowSurrogate c then utf8Replacement @ utf8Encode (d # ds)
      else utf8Bmp (unat c) @ utf8Encode (d # ds))"

definition rotr :: "nat \<Rightarrow> 32 word \<Rightarrow> 32 word" where
  "rotr n x = word_rotr n x"

definition Ch :: "32 word \<Rightarrow> 32 word \<Rightarrow> 32 word \<Rightarrow> 32 word" where
  "Ch x y z = (x AND y) XOR (NOT x AND z)"

definition Maj :: "32 word \<Rightarrow> 32 word \<Rightarrow> 32 word \<Rightarrow> 32 word" where
  "Maj x y z = (x AND y) XOR (x AND z) XOR (y AND z)"

definition bsig0 :: "32 word \<Rightarrow> 32 word" where
  "bsig0 x = rotr 2 x XOR rotr 13 x XOR rotr 22 x"

definition bsig1 :: "32 word \<Rightarrow> 32 word" where
  "bsig1 x = rotr 6 x XOR rotr 11 x XOR rotr 25 x"

definition ssig0 :: "32 word \<Rightarrow> 32 word" where
  "ssig0 x = rotr 7 x XOR rotr 18 x XOR drop_bit 3 x"

definition ssig1 :: "32 word \<Rightarrow> 32 word" where
  "ssig1 x = rotr 17 x XOR rotr 19 x XOR drop_bit 10 x"

text \<open>The round constants, eight to a row.\<close>

definition sha256_K :: "32 word list" where
  "sha256_K = concat
   [[0x428a2f98, 0x71374491, 0xb5c0fbcf, 0xe9b5dba5, 0x3956c25b, 0x59f111f1, 0x923f82a4, 0xab1c5ed5],
    [0xd807aa98, 0x12835b01, 0x243185be, 0x550c7dc3, 0x72be5d74, 0x80deb1fe, 0x9bdc06a7, 0xc19bf174],
    [0xe49b69c1, 0xefbe4786, 0x0fc19dc6, 0x240ca1cc, 0x2de92c6f, 0x4a7484aa, 0x5cb0a9dc, 0x76f988da],
    [0x983e5152, 0xa831c66d, 0xb00327c8, 0xbf597fc7, 0xc6e00bf3, 0xd5a79147, 0x06ca6351, 0x14292967],
    [0x27b70a85, 0x2e1b2138, 0x4d2c6dfc, 0x53380d13, 0x650a7354, 0x766a0abb, 0x81c2c92e, 0x92722c85],
    [0xa2bfe8a1, 0xa81a664b, 0xc24b8b70, 0xc76c51a3, 0xd192e819, 0xd6990624, 0xf40e3585, 0x106aa070],
    [0x19a4c116, 0x1e376c08, 0x2748774c, 0x34b0bcb5, 0x391c0cb3, 0x4ed8aa4a, 0x5b9cca4f, 0x682e6ff3],
    [0x748f82ee, 0x78a5636f, 0x84c87814, 0x8cc70208, 0x90befffa, 0xa4506ceb, 0xbef9a3f7, 0xc67178f2]]"

definition sha256_H0 :: "32 word list" where
  "sha256_H0 = [0x6a09e667, 0xbb67ae85, 0x3c6ef372, 0xa54ff53a,
                0x510e527f, 0x9b05688c, 0x1f83d9ab, 0x5be0cd19]"

definition sha256_pad :: "8 word list \<Rightarrow> 8 word list" where
  "sha256_pad m =
     (let l = length m; k = (64 - (l + 9) mod 64) mod 64
      in m @ [0x80] @ replicate k 0 @
         map (\<lambda>i. of_nat ((8 * l) div 2 ^ (8 * (7 - i)) mod 256)) [0..<8])"

definition be32 :: "8 word list \<Rightarrow> 32 word" where
  "be32 bs = foldl (\<lambda>acc b. push_bit 8 acc OR ucast b) 0 bs"

definition block_words :: "8 word list \<Rightarrow> 32 word list" where
  "block_words blk = map (\<lambda>i. be32 (take 4 (drop (4 * i) blk))) [0..<16]"

fun sha256_schedule :: "nat \<Rightarrow> 32 word list \<Rightarrow> 32 word list" where
  "sha256_schedule 0 ws = ws"
| "sha256_schedule (Suc n) ws =
     (let t = length ws
      in sha256_schedule n
           (ws @ [ssig1 (ws ! (t - 2)) + ws ! (t - 7) + ssig0 (ws ! (t - 15)) + ws ! (t - 16)]))"

fun sha256_round :: "32 word list \<Rightarrow> 32 word \<times> 32 word \<Rightarrow> 32 word list" where
  "sha256_round [a, b, c, d, e, f, g, h] (k, w) =
     (let t1 = h + bsig1 e + Ch e f g + k + w;
          t2 = bsig0 a + Maj a b c
      in [t1 + t2, a, b, c, d + t1, e, f, g])"
| "sha256_round st _ = st"

definition sha256_compress :: "32 word list \<Rightarrow> 8 word list \<Rightarrow> 32 word list" where
  "sha256_compress hs blk =
     map2 (+) hs (foldl sha256_round hs (zip sha256_K (sha256_schedule 48 (block_words blk))))"

definition sha256 :: "8 word list \<Rightarrow> 8 word list" where
  "sha256 m =
     (let p = sha256_pad m;
          blocks = map (\<lambda>i. take 64 (drop (64 * i) p)) [0..<length p div 64];
          hs = foldl sha256_compress sha256_H0 blocks
      in concat (map (\<lambda>w. map (\<lambda>i. ucast (drop_bit (8 * (3 - i)) w)) [0..<4]) hs))"

definition hexDigit :: "nat \<Rightarrow> 16 word" where
  "hexDigit n = (if n < 10 then 0x30 + of_nat n else 0x61 + of_nat (n - 10))"

definition toHex :: "8 word list \<Rightarrow> jsstring" where
  "toHex bs = concat (map (\<lambda>b. [hexDigit (unat b div 16), hexDigit (unat b mod 16)]) bs)"

definition sha256Hex :: "jsstring \<Rightarrow> jsstring" where
  "sha256Hex s = toHex (sha256 (utf8Encode s))"

definition isLowerHex :: "16 word \<Rightarrow> bool" where
  "isLowerHex c \<longleftrightarrow> (0x30 \<le> c \<and> c \<le> 0x39) \<or> (0x61 \<le> c \<and> c \<le> 0x66)"

section \<open>Slug codec (utils)\<close>

text \<open>
  \<^verbatim>\<open>input.toLowerCase().normalize("NFKD").replace(/[^\w\s-]/g, "").trim()
       .replace(/[\s_-]+/g, "-").replace(/^-+|-+$/g, "")\<close>
\<close>

definition isSeparator :: "16 word \<Rightarrow> bool" where
  "isSeparator c \<longleftrightarrow> isSpace c \<or> c = underscore \<or> c = hyphen"

definition stripHyphens :: "jsstring \<Rightarrow> jsstring" where
  "stripHyphens s =
     rev (dropWhile (\<lambda>c. c = hyphen) (rev (dropWhile (\<lambda>c. c = hyphen) s)))"

definition slugify :: "platform \<Rightarrow> jsstring \<Rightarrow> jsstring" where
  "slugify pf input =
     stripHyphens
       (replaceRuns isSeparator [hyphen]
         (trim
           (filter (\<lambda>c. isWordChar c \<or> isSpace c \<or> c = hyphen)
             (normalizeNFKD pf (toLowerCase pf input)))))"

text \<open>The two local constants of \<open>makeJobSlug\<close>: \<open>base\<close> and \<open>hash\<close>.\<close>

definition slugBase :: "platform \<Rightarrow> jsstring \<Rightarrow> jsstring" where
  "slugBase pf title_in =
     (let s = slugify pf title_in in if s = [] then str ''job-opening'' else s)"

definition urlHash :: "jsstring \<Rightarrow> jsstring" where
  "urlHash url_in = take 10 (sha256Hex url_in)"

definition makeJobSlug :: "platform \<Rightarrow> jsstring \<Rightarrow> jsstring \<Rightarrow> jsstring" where
  "makeJobSlug pf title_in url_in = slugBase pf title_in @ [hyphen] @ urlHash url_in"

definition extractHashFromSlug :: "jsstring \<Rightarrow> jsstring" where
  "extractHashFromSlug s =
     (let parts = split hyphen s in if length parts = 0 then [] else last parts)"

section \<open>Data model (careerjet)\<close>

datatype salary_period = Salary_Y | Salary_M | Salary_W | Salary_D | Salary_H

datatype contract_type = Contract_p | Contract_c | Contract_t | Contract_i | Contract_v

datatype work_hours = Hours_f | Hours_p

text \<open>
  Optional fields (\<open>field?: T\<close>) are \<open>option\<close>s: \<open>None\<close> is \<open>undefined\<close>. The
  numeric fields of a job are copied and never computed with; they are integers here.
\<close>

record CareerjetJob =
  title :: jsstring
  company :: jsstring
  date :: jsstring
  description :: jsstring
  locations :: jsstring
  salary :: "jsstring option"
  salary_currency_code :: "jsstring option"
  salary_max :: "int option"
  salary_min :: "int option"
  salary_type :: "salary_period option"
  site :: jsstring
  url :: jsstring
  apply_url :: "jsstring option"
  slug :: jsstring

record CareerjetRawJob =
  raw_title :: "jsstring option"
  raw_company :: "jsstring option"
  raw_date :: "jsstring option"
  raw_description :: "jsstring option"
  raw_locations :: "jsstring option"
  raw_salary :: "jsstring option"
  raw_salary_currency_code :: "jsstring option"
  raw_salary_max :: "int option"
  raw_salary_min :: "int option"
  raw_salary_type :: "salary_period option"
  raw_site :: "jsstring option"
  raw_url :: "jsstring option"

text \<open>
  \<open>CareerjetSearchResponse\<close>. The parsed JSON body has the same shape with raw job
  records in \<open>jobs\<close>, so the record is polymorphic in the type of its jobs.
\<close>

record 'j SearchResponse =
  res_type :: jsstring
  res_hits :: "int option"
  res_message :: "jsstring option"
  res_pages :: "int option"
  res_response_time :: "int option"
  res_jobs :: "'j list option"
  res_locations :: "jsstring list option"

type_synonym CareerjetSearchResponse = "CareerjetJob SearchResponse"

text \<open>The field \<open>keywords\<close> is written \<open>keywords'\<close>.\<close>

record CareerjetSearchCriteria =
  keywords' :: "jsstring option"
  location :: "jsstring option"
  contractType :: "contract_type option"
  workHours :: "work_hours option"
  page :: "int option"
  pageSize :: "int option"
  radius :: "int option"

definition noCriteria :: CareerjetSearchCriteria where
  "noCriteria =
     \<lparr> keywords' = None, location = None, contractType = None, workHours = None,
       page = None, pageSize = None, radius = None \<rparr>"

definition API_ENDPOINT :: jsstring where
  "API_ENDPOINT = str ''https://search.api.careerjet.net/v4/query''"

definition DEFAULT_LOCALE :: jsstring where
  "DEFAULT_LOCALE = str ''en_US''"

definition DEFAULT_PAGE_SIZE :: int where
  "DEFAULT_PAGE_SIZE = 20"

definition JOB_CACHE_TTL_MS :: int where
  "JOB_CACHE_TTL_MS = 1000 * 60 * 15"

section \<open>The environment of a call\<close>

text \<open>
  A thrown value is an \<open>Error\<close> object with its message, or any other value
  (\<open>error instanceof Error\<close> is false for it).
\<close>

datatype thrown = ErrorObject jsstring | OtherValue

record env =
  CAREERJET_API_KEY :: "jsstring option"
  CAREERJET_REFERER :: "jsstring option"
  NEXT_PUBLIC_SITE_URL :: "jsstring option"
  CAREERJET_FALLBACK_IP :: "jsstring option"
  CAREERJET_FALLBACK_UA :: "jsstring option"

record request =
  req_url :: jsstring
  req_authorization :: jsstring
  req_referer :: jsstring

text \<open>
  What \<open>fetch\<close> gives back: a rejection, or a response with its status line and the
  outcomes of \<open>response.text()\<close> and \<open>response.json()\<close> (which may themselves throw).
  The JSON body is taken as already typed, as the source's cast does.
\<close>

record http_response =
  status :: nat
  statusText :: jsstring
  body_text :: "thrown + jsstring"
  body_json :: "thrown + CareerjetRawJob SearchResponse"

datatype fetch_outcome = FetchRejected thrown | FetchResponse http_response

text \<open>
  The world outside the module: \<open>process.env\<close>; the inbound request headers
  (\<open>None\<close> when \<open>headers()\<close> throws, outside a request); the response store of
  \<open>unstable_cache\<close>, which for a query string either serves a stored response or misses;
  and the network.
\<close>

record world =
  processEnv :: env
  requestHeaders :: "(jsstring \<Rightarrow> jsstring option) option"
  cacheLookup :: "jsstring \<Rightarrow> CareerjetSearchResponse option"
  fetch :: "request \<Rightarrow> fetch_outcome"

text \<open>\<open>a || b\<close> on an optional string: \<open>undefined\<close> and \<open>""\<close> are falsy.\<close>

definition truthy :: "jsstring option \<Rightarrow> bool" where
  "truthy a \<longleftrightarrow> (case a of None \<Rightarrow> False | Some s \<Rightarrow> s \<noteq> [])"

definition jsOr :: "jsstring option \<Rightarrow> jsstring \<Rightarrow> jsstring" where
  "jsOr a b = (case a of None \<Rightarrow> b | Some s \<Rightarrow> if s = [] then b else s)"

text \<open>\<open>a ?? b\<close>.\<close>

definition nullish :: "'a option \<Rightarrow> 'a \<Rightarrow> 'a" where
  "nullish a b = (case a of None \<Rightarrow> b | Some x \<Rightarrow> x)"

text \<open>
  \<open>String(n)\<close> for an integer of magnitude below \<open>10^21\<close>, where it is the decimal
  notation. From \<open>10^21\<close> on JavaScript prints an exponent form, which is not
  modelled: the numbers of the criteria (page, page size, radius) are taken below it.
\<close>

function natToString :: "nat \<Rightarrow> jsstring" where
  "natToString n =
     (if n < 10 then [0x30 + of_nat n] else natToString (n div 10) @ [0x30 + of_nat (n mod 10)])"
  by pat_completeness auto
termination
  by (relation "measure id") auto

definition intToString :: "int \<Rightarrow> jsstring" where
  "intToString i = (if i < 0 then str ''-'' @ natToString (nat (- i)) else natToString (nat i))"

text \<open>\<open>Buffer.from(s).toString("base64")\<close>.\<close>

definition base64Char :: "nat \<Rightarrow> 16 word" where
  "base64Char n =
     (if n < 26 then 0x41 + of_nat n
      else if n < 52 then 0x61 + of_nat (n - 26)
      else if n < 62 then 0x30 + of_nat (n - 52)
      else if n = 62 then 0x2B else 0x2F)"

fun base64 :: "8 word list \<Rightarrow> jsstring" where
  "base64 [] = []"
| "base64 [a] =
     [base64Char (unat a div 4), base64Char (unat a mod 4 * 16), 0x3D, 0x3D]"
| "base64 [a, b] =
     [base64Char (unat a div 4), base64Char (unat a mod 4 * 16 + unat b div 16),
      base64Char (unat b mod 16 * 4), 0x3D]"
| "base64 (a # b # c # bs) =
     [base64Char (unat a div 4), base64Char (unat a mod 4 * 16 + unat b div 16),
      base64Char (unat b mod 16 * 4 + unat c div 64), base64Char (unat c mod 64)] @ base64 bs"

text \<open>\<open>URLSearchParams.toString()\<close>: the application/x-www-form-urlencoded serialiser.\<close>

definition upperHexDigit :: "nat \<Rightarrow> 16 word" where
  "upperHexDigit n = (if n < 10 then 0x30 + of_nat n else 0x41 + of_nat (n - 10))"

definition formByte :: "8 word \<Rightarrow> jsstring" where
  "formByte b =
     (let n = unat b
      in if n = 0x2A \<or> n = 0x2D \<or> n = 0x2E \<or> n = 0x5F \<or> (0x30 \<le> n \<and> n \<le> 0x39) \<or>
            (0x41 \<le> n \<and> n \<le> 0x5A) \<or> (0x61 \<le> n \<and> n \<le> 0x7A) then [of_nat n]
         else if n = 0x20 then str ''+''
         else str ''%'' @ [upperHexDigit (n div 16), upperHexDigit (n mod 16)])"

definition formEncode :: "jsstring \<Rightarrow> jsstring" where
  "formEncode s = concat (map formByte (utf8Encode s))"

definition paramsToString :: "(jsstring \<times> jsstring) list \<Rightarrow> jsstring" where
  "paramsToString ps =
     join (str ''&'') (map (\<lambda>(k, v). formEncode k @ str ''='' @ formEncode v) ps)"

section \<open>Search client (careerjet)\<close>

definition emptyResponse :: "jsstring option \<Rightarrow> CareerjetSearchResponse" where
  "emptyResponse message =
     \<lparr> res_type = str ''ERROR'', res_hits = Some 0, res_message = message, res_pages = Some 1,
       res_response_time = None, res_jobs = Some [], res_locations = None \<rparr>"

definition missingKeyMessage :: jsstring where
  "missingKeyMessage =
     str ''Missing CAREERJET_API_KEY environment variable. Please set it in your environment.''"

definition ensureApiKey :: "env \<Rightarrow> thrown + jsstring" where
  "ensureApiKey e =
     (case CAREERJET_API_KEY e of
        None \<Rightarrow> Inl (ErrorObject missingKeyMessage)
      | Some apiKey \<Rightarrow> if apiKey = [] then Inl (ErrorObject missingKeyMessage) else Inr apiKey)"

definition buildAuthHeader :: "env \<Rightarrow> thrown + jsstring" where
  "buildAuthHeader e =
     (case ensureApiKey e of
        Inl err \<Rightarrow> Inl err
      | Inr apiKey \<Rightarrow> Inr (str ''Basic '' @ base64 (utf8Encode (apiKey @ str '':''))))"

definition getReferer :: "env \<Rightarrow> jsstring" where
  "getReferer e =
     jsOr (CAREERJET_REFERER e) (jsOr (NEXT_PUBLIC_SITE_URL e) (str ''https://jobhub.example.com''))"

record requestMeta =
  ip :: jsstring
  userAgent :: jsstring

definition getRequestMetadata :: "world \<Rightarrow> requestMeta" where
  "getRequestMetadata w =
     (case requestHeaders w of
        Some headerList \<Rightarrow>
          (let forwardedFor = nullish (headerList (str ''x-forwarded-for'')) []
           in \<lparr> ip = jsOr (Some (hd (map trim (split 0x2C forwardedFor))))
                        (jsOr (CAREERJET_FALLBACK_IP (processEnv w)) (str ''8.8.8.8'')),
                userAgent = jsOr (headerList (str ''user-agent''))
                              (jsOr (CAREERJET_FALLBACK_UA (processEnv w)) (str ''JobHubBot/1.0'')) \<rparr>)
      | None \<Rightarrow>
          \<lparr> ip = jsOr (CAREERJET_FALLBACK_IP (processEnv w)) (str ''8.8.8.8''),
            userAgent = jsOr (CAREERJET_FALLBACK_UA (processEnv w)) (str ''JobHubBot/1.0'') \<rparr>)"

definition contractTypeString :: "contract_type \<Rightarrow> jsstring" where
  "contractTypeString ct =
     (case ct of Contract_p \<Rightarrow> str ''p'' | Contract_c \<Rightarrow> str ''c'' | Contract_t \<Rightarrow> str ''t''
      | Contract_i \<Rightarrow> str ''i'' | Contract_v \<Rightarrow> str ''v'')"

definition workHoursString :: "work_hours \<Rightarrow> jsstring" where
  "workHoursString wh = (case wh of Hours_f \<Rightarrow> str ''f'' | Hours_p \<Rightarrow> str ''p'')"

text \<open>\<open>if (x) params.set(k, f(x))\<close>.\<close>

definition setIf ::
  "jsstring \<Rightarrow> jsstring option \<Rightarrow> (jsstring \<times> jsstring) list \<Rightarrow> (jsstring \<times> jsstring) list" where
  "setIf k v ps = (case v of None \<Rightarrow> ps | Some x \<Rightarrow> AList.update k x ps)"

definition buildQueryString :: "CareerjetSearchCriteria \<Rightarrow> requestMeta \<Rightarrow> jsstring" where
  "buildQueryString criteria meta =
     (let ps0 = AList.update (str ''locale_code'') DEFAULT_LOCALE [];
          ps1 = AList.update (str ''page_size'')
                  (intToString (nullish (pageSize criteria) DEFAULT_PAGE_SIZE)) ps0;
          ps2 = AList.update (str ''page'') (intToString (nullish (page criteria) 1)) ps1;
          ps3 = AList.update (str ''user_ip'') (ip meta) ps2;
          ps4 = AList.update (str ''user_agent'') (userAgent meta) ps3;
          ps5 = setIf (str ''radius'')
                  (case radius criteria of None \<Rightarrow> None
                   | Some r \<Rightarrow> if r = 0 then None else Some (intToString r)) ps4;
          ps6 = setIf (str ''keywords'')
                  (if truthy (keywords' criteria) then keywords' criteria else None) ps5;
          ps7 = setIf (str ''location'')
                  (if truthy (location criteria) then location criteria else None) ps6;
          ps8 = setIf (str ''contract_type'') (map_option contractTypeString (contractType criteria)) ps7;
          ps9 = setIf (str ''work_hours'') (map_option workHoursString (workHours criteria)) ps8
      in paramsToString ps9)"

section \<open>Short-lived job cache\<close>

text \<open>
  \<open>jobCache\<close> is a JavaScript \<open>Map\<close>: the entries in insertion order, each key once.
  \<open>set\<close> on a present key replaces the value in place and otherwise appends
  (\<open>AList.update\<close>); \<open>delete\<close> removes the entry (\<open>AList.delete\<close>). \<open>Date.now()\<close> is
  the argument \<open>now\<close> of each operation, in milliseconds.
\<close>

record cache_entry =
  job :: CareerjetJob
  expiresAt :: int

type_synonym jobCache = "(jsstring \<times> cache_entry) list"

fun rememberLoop :: "int \<Rightarrow> CareerjetJob list \<Rightarrow> jobCache \<Rightarrow> jobCache" where
  "rememberLoop ex [] c = c"
| "rememberLoop ex (j # js) c =
     (let hash = extractHashFromSlug (slug j)
      in rememberLoop ex js (AList.update hash \<lparr> job = j, expiresAt = ex \<rparr> c))"

definition rememberJobs :: "CareerjetJob list \<Rightarrow> int \<Rightarrow> jobCache \<Rightarrow> jobCache" where
  "rememberJobs jobs now c = rememberLoop (now + JOB_CACHE_TTL_MS) jobs c"

definition getJobFromCache :: "jsstring \<Rightarrow> int \<Rightarrow> jobCache \<Rightarrow> CareerjetJob option \<times> jobCache" where
  "getJobFromCache hash now c =
     (case map_of c hash of
        None \<Rightarrow> (None, c)
      | Some cached \<Rightarrow>
          if expiresAt cached < now then (None, AList.delete hash c)
          else (Some (job cached), c))"

text \<open>
  The loop of \<open>getCachedJobsSnapshot\<close> over the entries of the map, with the result
  array and the map as its state.
\<close>

fun snapshotLoop ::
  "int \<Rightarrow> jobCache \<Rightarrow> CareerjetJob list \<times> jobCache \<Rightarrow> CareerjetJob list \<times> jobCache" where
  "snapshotLoop now [] (result, c) = (result, c)"
| "snapshotLoop now ((hash, entry) # es) (result, c) =
     (if expiresAt entry \<ge> now then snapshotLoop now es (result @ [job entry], c)
      else snapshotLoop now es (result, AList.delete hash c))"

definition getCachedJobsSnapshot :: "int \<Rightarrow> jobCache \<Rightarrow> CareerjetJob list \<times> jobCache" where
  "getCachedJobsSnapshot now c = snapshotLoop now c ([], c)"

text \<open>Sequences of the three cache operations, from the empty cache of a fresh process.\<close>

datatype cacheOp =
  Remember "CareerjetJob list" int
| Get jsstring int
| Snapshot int

fun applyOp :: "cacheOp \<Rightarrow> jobCache \<Rightarrow> jobCache" where
  "applyOp (Remember jobs now) c = rememberJobs jobs now c"
| "applyOp (Get hash now) c = snd (getJobFromCache hash now c)"
| "applyOp (Snapshot now) c = snd (getCachedJobsSnapshot now c)"

fun runOps :: "cacheOp list \<Rightarrow> jobCache \<Rightarrow> jobCache" where
  "runOps [] c = c"
| "runOps (op # ops) c = runOps ops (applyOp op c)"

text \<open>Every key of the cache is the hash of its job's slug, and occurs once.\<close>

definition keysMatch :: "jobCache \<Rightarrow> bool" where
  "keysMatch c \<longleftrightarrow> (\<forall>(k, e) \<in> set c. extractHashFromSlug (slug (job e)) = k)"

section \<open>Normalisation and the search\<close>

definition normalizeJob :: "platform \<Rightarrow> CareerjetRawJob \<Rightarrow> CareerjetJob" where
  "normalizeJob pf raw =
     (let slug' = makeJobSlug pf (nullish (raw_title raw) (str ''Job Opening''))
                    (nullish (raw_url raw) [])
      in \<lparr> title = nullish (raw_title raw) (str ''Job Opening''),
           company = nullish (raw_company raw) [],
           date = nullish (raw_date raw) [],
           description = nullish (raw_description raw) [],
           locations = nullish (raw_locations raw) [],
           salary = raw_salary raw,
           salary_currency_code = raw_salary_currency_code raw,
           salary_max = raw_salary_max raw,
           salary_min = raw_salary_min raw,
           salary_type = raw_salary_type raw,
           site = nullish (raw_site raw) [],
           url = nullish (raw_url raw) [],
           apply_url = Some (nullish (raw_url raw) []),
           slug = slug' \<rparr>)"

text \<open>The process state: the job cache, and the requests sent to the network so far.\<close>

record state =
  jobCache :: jobCache
  fetchLog :: "request list"

definition responseOk :: "http_response \<Rightarrow> bool" where
  "responseOk r \<longleftrightarrow> 200 \<le> status r \<and> status r \<le> 299"

definition withJobs :: "'a SearchResponse \<Rightarrow> 'b list option \<Rightarrow> 'b SearchResponse" where
  "withJobs data js =
     \<lparr> res_type = res_type data, res_hits = res_hits data, res_message = res_message data,
       res_pages = res_pages data, res_response_time = res_response_time data,
       res_jobs = js, res_locations = res_locations data \<rparr>"

text \<open>
  The function wrapped by \<open>unstable_cache\<close>: the fetch-and-parse step. The headers of the
  request are evaluated before \<open>fetch\<close> is called.
\<close>

definition fetchAndParse ::
  "platform \<Rightarrow> world \<Rightarrow> int \<Rightarrow> jsstring \<Rightarrow> state \<Rightarrow> (thrown + CareerjetSearchResponse) \<times> state" where
  "fetchAndParse pf w now queryString s =
     (case buildAuthHeader (processEnv w) of
        Inl err \<Rightarrow> (Inl err, s)
      | Inr auth \<Rightarrow>
          (let req = \<lparr> req_url = API_ENDPOINT @ str ''?'' @ queryString,
                       req_authorization = auth,
                       req_referer = getReferer (processEnv w) \<rparr>;
               s1 = s\<lparr> fetchLog := fetchLog s @ [req] \<rparr>
           in case fetch w req of
                FetchRejected err \<Rightarrow> (Inl err, s1)
              | FetchResponse response \<Rightarrow>
                  if \<not> responseOk response then
                    (case body_text response of
                       Inl err \<Rightarrow> (Inl err, s1)
                     | Inr message \<Rightarrow>
                         (Inl (ErrorObject
                            (str ''Careerjet API error ('' @ natToString (status response) @
                             str ''): '' @ jsOr (Some message) (statusText response))), s1))
                  else
                    (case body_json response of
                       Inl err \<Rightarrow> (Inl err, s1)
                     | Inr data \<Rightarrow>
                         (case res_jobs data of
                            Some raws \<Rightarrow>
                              (let jobs = map (normalizeJob pf) raws
                               in (Inr (withJobs data (Some jobs)),
                                   s1\<lparr> jobCache := rememberJobs jobs now (jobCache s1) \<rparr>))
                          | None \<Rightarrow> (Inr (withJobs data None), s1)))))"

definition cachedSearch ::
  "platform \<Rightarrow> world \<Rightarrow> int \<Rightarrow> jsstring \<Rightarrow> state \<Rightarrow> (thrown + CareerjetSearchResponse) \<times> state" where
  "cachedSearch pf w now queryString s =
     (case cacheLookup w queryString of
        Some stored \<Rightarrow> (Inr stored, s)
      | None \<Rightarrow> fetchAndParse pf w now queryString s)"

text \<open>\<open>error instanceof Error ? error.message : "Careerjet API unavailable"\<close>.\<close>

definition thrownMessage :: "thrown \<Rightarrow> jsstring" where
  "thrownMessage err =
     (case err of ErrorObject m \<Rightarrow> m | OtherValue \<Rightarrow> str ''Careerjet API unavailable'')"

text \<open>
  \<open>searchJobs\<close>; \<open>Inl\<close> would be an exception that reaches the caller. The
  \<open>console.error\<close> of the catch block writes a log line only and is left out.
\<close>

definition searchJobs ::
  "platform \<Rightarrow> world \<Rightarrow> int \<Rightarrow> CareerjetSearchCriteria \<Rightarrow> state \<Rightarrow>
     (thrown + CareerjetSearchResponse) \<times> state" where
  "searchJobs pf w now criteria s =
     (let meta = getRequestMetadata w;
          queryString = buildQueryString criteria meta
      in case cachedSearch pf w now queryString s of
           (Inr response, s') \<Rightarrow> (Inr response, s')
         | (Inl err, s') \<Rightarrow> (Inr (emptyResponse (Some (thrownMessage err))), s'))"

section \<open>Slug resolver\<close>

text \<open>
  \<open>findJobBySlug\<close>. \<open>t1\<close> is the clock read by the cache lookup, \<open>t2\<close> the one read when
  the search stores its jobs.
\<close>

definition keywordsFromSlug :: "jsstring \<Rightarrow> jsstring" where
  "keywordsFromSlug s = replaceRuns isSpace [space] (join [space] (butlast (split hyphen s)))"

definition findJobBySlug ::
  "platform \<Rightarrow> world \<Rightarrow> int \<Rightarrow> int \<Rightarrow> jsstring \<Rightarrow> CareerjetSearchCriteria \<Rightarrow> state \<Rightarrow>
     (thrown + CareerjetJob option) \<times> state" where
  "findJobBySlug pf w t1 t2 slug_in fallbackCriteria s =
     (let hash = extractHashFromSlug slug_in;
          (cached, c1) = getJobFromCache hash t1 (jobCache s);
          s1 = s\<lparr> jobCache := c1 \<rparr>
      in case cached of
           Some j \<Rightarrow> (Inr (Some j), s1)
         | None \<Rightarrow>
             (let criteria =
                    (if \<not> truthy (keywords' fallbackCriteria)
                     then fallbackCriteria\<lparr> keywords' := Some (keywordsFromSlug slug_in) \<rparr>
                     else fallbackCriteria)
              in case searchJobs pf w t2 criteria s1 of
                   (Inl err, s2) \<Rightarrow> (Inl err, s2)
                 | (Inr response, s2) \<Rightarrow>
                     (Inr (case res_jobs response of
                             None \<Rightarrow> None
                           | Some js \<Rightarrow> find (\<lambda>item. extractHashFromSlug (slug item) = hash) js),
                      s2)))"

section \<open>Sitemap\<close>

record sitemap_entry =
  sm_url :: jsstring
  sm_lastModified :: int
  sm_changeFrequency :: jsstring
  sm_priority :: real

text \<open>\<open>siteUrl.replace(/\/$/, "")\<close>.\<close>

definition stripTrailingSlash :: "jsstring \<Rightarrow> jsstring" where
  "stripTrailingSlash s = (if s \<noteq> [] \<and> last s = 0x2F then butlast s else s)"

definition siteOrigin :: "world \<Rightarrow> jsstring" where
  "siteOrigin w =
     stripTrailingSlash
       (nullish (NEXT_PUBLIC_SITE_URL (processEnv w)) (str ''https://jobhub.example.com''))"

text \<open>
  One entry of \<open>jobEntries\<close>; \<open>current\<close> is the clock read by \<open>new Date()\<close> for this
  entry.
\<close>

definition jobEntry :: "platform \<Rightarrow> jsstring \<Rightarrow> int \<Rightarrow> CareerjetJob \<Rightarrow> sitemap_entry" where
  "jobEntry pf origin current j =
     \<lparr> sm_url = origin @ str ''/jobs/'' @ slug j,
       sm_lastModified = (case dateParse pf (date j) of None \<Rightarrow> current | Some parsed \<Rightarrow> parsed),
       sm_changeFrequency = str ''daily'',
       sm_priority = 0.6 \<rparr>"

definition homeEntry :: "jsstring \<Rightarrow> int \<Rightarrow> sitemap_entry" where
  "homeEntry origin current =
     \<lparr> sm_url = origin @ str ''/'', sm_lastModified = current,
       sm_changeFrequency = str ''hourly'', sm_priority = 1 \<rparr>"

text \<open>
  The jobs the sitemap lists: the snapshot of the cache, or, when that is empty, the jobs
  of a search with \<open>pageSize: 20\<close>. \<open>t1\<close> is the clock of the snapshot, \<open>t2\<close> that of
  the search.
\<close>

definition sitemapJobs ::
  "platform \<Rightarrow> world \<Rightarrow> int \<Rightarrow> int \<Rightarrow> state \<Rightarrow> CareerjetJob list \<times> state" where
  "sitemapJobs pf w t1 t2 s =
     (let (jobs, c1) = getCachedJobsSnapshot t1 (jobCache s);
          s1 = s\<lparr> jobCache := c1 \<rparr>
      in if length jobs = 0 then
           (case searchJobs pf w t2 (noCriteria\<lparr> pageSize := Some 20 \<rparr>) s1 of
              (Inr response, s2) \<Rightarrow> (nullish (res_jobs response) [], s2)
            | (Inl err, s2) \<Rightarrow> (jobs, s2))
         else (jobs, s1))"

text \<open>
  \<open>sitemap\<close>; \<open>clock i\<close> is the time read by \<open>new Date()\<close> for the job at index \<open>i\<close>,
  and \<open>clock (length jobs)\<close> the one read for the home page entry.
\<close>

definition sitemap ::
  "platform \<Rightarrow> world \<Rightarrow> int \<Rightarrow> int \<Rightarrow> (nat \<Rightarrow> int) \<Rightarrow> state \<Rightarrow> sitemap_entry list \<times> state" where
  "sitemap pf w t1 t2 clock s =
     (let origin = siteOrigin w;
          (jobs, s') = sitemapJobs pf w t1 t2 s;
          jobEntries = map (\<lambda>(i, j). jobEntry pf origin (clock i) j) (zip [0..<length jobs] jobs)
      in (homeEntry origin (clock (length jobs)) # jobEntries, s'))"

section \<open>Sample data\<close>

text \<open>A job record with a given slug, and a raw record with a given title and URL.\<close>

definition exampleJob :: "jsstring \<Rightarrow> CareerjetJob" where
  "exampleJob s =
     \<lparr> title = str ''Ghost Role'', company = str ''Acme'', date = str ''2024-01-01'',
       description = [], locations = str ''Austin, TX'', salary = None,
       salary_currency_code = None, salary_max = None, salary_min = None, salary_type = None,
       site = str ''example.com'', url = str ''https://example.com/jobs/1'',
       apply_url = Some (str ''https://example.com/jobs/1''), slug = s \<rparr>"

definition exampleRaw :: "jsstring \<Rightarrow> jsstring option \<Rightarrow> CareerjetRawJob" where
  "exampleRaw t u =
     \<lparr> raw_title = Some t, raw_company = None, raw_date = None, raw_description = None,
       raw_locations = None, raw_salary = None, raw_salary_currency_code = None,
       raw_salary_max = None, raw_salary_min = None, raw_salary_type = None,
       raw_site = None, raw_url = u \<rparr>"

text \<open>
  Worlds for the examples: an environment with the given API key and nothing else set,
  no inbound request, an empty response store, and a network that answers every request
  in the same way.
\<close>

definition exampleEnv :: "jsstring option \<Rightarrow> env" where
  "exampleEnv key =
     \<lparr> CAREERJET_API_KEY = key, CAREERJET_REFERER = None, NEXT_PUBLIC_SITE_URL = None,
       CAREERJET_FALLBACK_IP = None, CAREERJET_FALLBACK_UA = None \<rparr>"

definition exampleWorld :: "jsstring option \<Rightarrow> fetch_outcome \<Rightarrow> world" where
  "exampleWorld key outcome =
     \<lparr> processEnv = exampleEnv key, requestHeaders = None, cacheLookup = (\<lambda>q. None),
       fetch = (\<lambda>r. outcome) \<rparr>"

definition serverError :: fetch_outcome where
  "serverError =
     FetchResponse \<lparr> status = 500, statusText = str ''Internal Server Error'',
                     body_text = Inr [], body_json = Inl OtherValue \<rparr>"

definition jobsResponse :: "CareerjetRawJob list \<Rightarrow> fetch_outcome" where
  "jobsResponse raws =
     FetchResponse
       \<lparr> status = 200, statusText = str ''OK'', body_text = Inr [],
         body_json = Inr \<lparr> res_type = str ''JOBS'', res_hits = Some (int (length raws)),
                           res_message = None, res_pages = Some 1, res_response_time = None,
                           res_jobs = Some raws, res_locations = None \<rparr> \<rparr>"

definition initialState :: state where
  "initialState = \<lparr> jobCache = [], fetchLog = [] \<rparr>"

text \<open>
  A state with two cached jobs, the second one without a posting date (as
  \<open>normalizeJob\<close> leaves it when the raw record has none).
\<close>

definition undatedJob :: "jsstring \<Rightarrow> CareerjetJob" where
  "undatedJob s = (exampleJob s)\<lparr> date := [] \<rparr>"

definition cachedState :: state where
  "cachedState =
     \<lparr> jobCache = [(str ''b'', \<lparr> job = exampleJob (str ''a-b''), expiresAt = 5 \<rparr>),
                   (str ''d'', \<lparr> job = undatedJob (str ''c-d''), expiresAt = 5 \<rparr>)],
       fetchLog = [] \<rparr>"

definition frozenClock :: "nat \<Rightarrow> int" where
  "frozenClock i = 1000"

section \<open>Properties of the slug codec\<close>

lemma split_not_Nil: "split sep s \<noteq> []"
  by (induction s) (auto simp: Let_def)

lemma split_no_sep: "sep \<notin> set h \<Longrightarrow> split sep h = [h]"
  by (induction h) (auto simp: Let_def)

lemma length_split: "length (split sep s) = Suc (length (filter (\<lambda>c. c = sep) s))"
  by (induction s) (auto simp: Let_def split_not_Nil)

lemma last_split_append:
  "sep \<notin> set h \<Longrightarrow> last (split sep (b @ sep # h)) = h"
proof (induction b)
  case Nil
  then show ?case by (simp add: split_no_sep)
next
  case (Cons c b)
  let ?r = "split sep (b @ sep # h)"
  have "length ?r \<ge> 2" by (simp add: length_split)
  then obtain p q qs where r: "?r = p # q # qs"
    by (cases ?r; cases "tl ?r") auto
  with Cons show ?case by (auto simp: Let_def)
qed

lemma hexDigit_lower_all: "list_all (\<lambda>n. isLowerHex (hexDigit n)) [0..<16]"
  by code_simp

lemma hexDigit_lower: "n < 16 \<Longrightarrow> isLowerHex (hexDigit n)"
  using hexDigit_lower_all by (simp add: list_all_iff)

lemma toHex_length: "length (toHex bs) = 2 * length bs"
  unfolding toHex_def by (induction bs) auto

lemma toHex_lower: "c \<in> set (toHex bs) \<Longrightarrow> isLowerHex c"
proof -
  have d: "unat b div 16 < 16" and m: "unat b mod 16 < 16" for b :: "8 word"
  proof -
    have "unat b < 256" using unsigned_less [of b, where ?'a = nat] by simp
    then show "unat b div 16 < 16" by simp
    show "unat b mod 16 < 16" by simp
  qed
  assume "c \<in> set (toHex bs)"
  then show ?thesis
    unfolding toHex_def by (auto intro: hexDigit_lower d m)
qed

lemma sha256_round_length: "length st = 8 \<Longrightarrow> length (sha256_round st kw) = 8"
  by (cases "(st, kw)" rule: sha256_round.cases) (auto simp: Let_def)

lemma foldl_round_length: "length st = 8 \<Longrightarrow> length (foldl sha256_round st kws) = 8"
  by (induction kws arbitrary: st) (auto simp: sha256_round_length)

lemma sha256_compress_length: "length hs = 8 \<Longrightarrow> length (sha256_compress hs blk) = 8"
  by (simp add: sha256_compress_def foldl_round_length)

lemma foldl_compress_length:
  "length hs = 8 \<Longrightarrow> length (foldl sha256_compress hs blocks) = 8"
  by (induction blocks arbitrary: hs) (auto simp: sha256_compress_length)

lemma length_concat_const:
  "(\<And>x. x \<in> set xs \<Longrightarrow> length (f x) = k) \<Longrightarrow> length (concat (map f xs)) = k * length xs"
  by (induction xs) auto

lemma sha256_length: "length (sha256 m) = 32"
proof -
  have "length (foldl sha256_compress sha256_H0 blocks) = 8" for blocks
    by (rule foldl_compress_length) (simp add: sha256_H0_def)
  then show ?thesis
    unfolding sha256_def Let_def by (subst length_concat_const [where k = 4]) auto
qed

lemma sha256Hex_length: "length (sha256Hex s) = 64"
  by (simp add: sha256Hex_def toHex_length sha256_length)

lemma isLowerHex_not_hyphen: "isLowerHex c \<Longrightarrow> c \<noteq> hyphen"
  by (auto simp: isLowerHex_def hyphen_def)

lemma urlHash_length: "length (urlHash u) = 10"
  by (simp add: urlHash_def sha256Hex_length)

lemma urlHash_lower: "c \<in> set (urlHash u) \<Longrightarrow> isLowerHex c"
  unfolding urlHash_def sha256Hex_def by (auto dest: in_set_takeD toHex_lower)

lemma extractHash_makeJobSlug: "extractHashFromSlug (makeJobSlug pf t u) = urlHash u"
proof -
  have "hyphen \<notin> set (urlHash u)"
    using urlHash_lower isLowerHex_not_hyphen by blast
  then have "last (split hyphen (slugBase pf t @ hyphen # urlHash u)) = urlHash u"
    by (rule last_split_append)
  then show ?thesis
    by (simp add: extractHashFromSlug_def makeJobSlug_def split_not_Nil)
qed


text \<open>
  The example of the specification: the base of the slug of "Senior Backend Engineer"
  on a platform that is exact on ASCII.
\<close>

lemma slugify_example:
  "slugify asciiPlatform (str ''Senior Backend Engineer'') = str ''senior-backend-engineer''"
  by code_simp

lemma makeJobSlug_example:
  "makeJobSlug asciiPlatform (str ''Senior Backend Engineer'') u =
     str ''senior-backend-engineer-'' @ urlHash u"
  by (simp add: makeJobSlug_def slugBase_def slugify_example Let_def) (simp add: str_def hyphen_def)

text \<open>
  C5: for every title whose normalised form is not empty and every URL, the hash
  extracted from the slug made of them is the first 10 characters of the hexadecimal
  SHA-256 digest of the URL: exactly 10 characters, each a lowercase hexadecimal digit.
\<close>

theorem extractHash_makeJobSlug_hex:
  assumes "slugify pf t \<noteq> []"
  shows "extractHashFromSlug (makeJobSlug pf t u) = take 10 (sha256Hex u) \<and>
         length (extractHashFromSlug (makeJobSlug pf t u)) = 10 \<and>
         list_all isLowerHex (extractHashFromSlug (makeJobSlug pf t u))"
  by (simp add: extractHash_makeJobSlug urlHash_length list_all_iff urlHash_lower)
     (simp add: urlHash_def)

theorem extractHash_makeJobSlug_hex_witness:
  "slugify asciiPlatform (str ''Job'') \<noteq> [] \<and>
   extractHashFromSlug (makeJobSlug asciiPlatform (str ''Job'') (str ''u'')) =
     take 10 (sha256Hex (str ''u'')) \<and>
   length (extractHashFromSlug (makeJobSlug asciiPlatform (str ''Job'') (str ''u''))) = 10 \<and>
   list_all isLowerHex (extractHashFromSlug (makeJobSlug asciiPlatform (str ''Job'') (str ''u'')))"
proof -
  have h: "slugify asciiPlatform (str ''Job'') \<noteq> []"
    by code_simp
  show ?thesis
    using h extractHash_makeJobSlug_hex [OF h, of "str ''u''"] by blast
qed

text \<open>
  C6: a slug is a function of the title and the URL alone, and it factors into a base
  that depends on the title only and a suffix of 10 hexadecimal characters that depends
  on the URL only: with the title fixed, another URL leaves everything before the last
  10 characters as it was, and with the URL fixed, another title leaves the last 10
  characters as they were.
\<close>

theorem makeJobSlug_factors:
  "makeJobSlug pf t u = slugBase pf t @ [hyphen] @ urlHash u \<and>
   length (urlHash u) = 10 \<and> list_all isLowerHex (urlHash u) \<and>
   take (length (makeJobSlug pf t u) - 10) (makeJobSlug pf t u) =
     take (length (makeJobSlug pf t u') - 10) (makeJobSlug pf t u') \<and>
   drop (length (makeJobSlug pf t u) - 10) (makeJobSlug pf t u) =
     drop (length (makeJobSlug pf t' u) - 10) (makeJobSlug pf t' u)"
  by (simp add: makeJobSlug_def urlHash_length list_all_iff urlHash_lower)

section \<open>Properties of normalisation\<close>

text \<open>
  C10: the apply URL of a normalised job is always present and is the job's canonical
  source URL, which is the raw record's URL, or the empty string when the raw record has
  none. The raw record has no apply URL field of its own.
\<close>

theorem normalizeJob_apply_url:
  "apply_url (normalizeJob pf raw) = Some (url (normalizeJob pf raw)) \<and>
   url (normalizeJob pf raw) = (case raw_url raw of None \<Rightarrow> [] | Some u \<Rightarrow> u)"
  by (simp add: normalizeJob_def Let_def nullish_def)

section \<open>Properties of the job cache\<close>

lemma set_update_subset: "set (AList.update k v al) \<subseteq> insert (k, v) (set al)"
  by (induction al) auto

lemma set_delete_subset: "set (AList.delete k al) \<subseteq> set al"
  by (auto simp: AList.delete_eq)

lemma map_of_rememberLoop:
  "map_of (rememberLoop ex js c) h =
     (if h \<in> (\<lambda>j. extractHashFromSlug (slug j)) ` set js
      then Some \<lparr> job = last (filter (\<lambda>j. extractHashFromSlug (slug j) = h) js), expiresAt = ex \<rparr>
      else map_of c h)"
proof (induction js arbitrary: c)
  case Nil
  then show ?case by simp
next
  case (Cons j js)
  show ?case
    by (auto simp: Cons.IH Let_def update_conv' filter_empty_conv)
qed

lemma distinct_rememberLoop:
  "distinct (map fst c) \<Longrightarrow> distinct (map fst (rememberLoop ex js c))"
  by (induction js arbitrary: c) (auto simp: Let_def distinct_update)

lemma keysMatch_update:
  "keysMatch c \<Longrightarrow> extractHashFromSlug (slug (job e)) = k \<Longrightarrow> keysMatch (AList.update k e c)"
  unfolding keysMatch_def using set_update_subset [of k e c] by auto

lemma keysMatch_subset: "keysMatch c \<Longrightarrow> set c' \<subseteq> set c \<Longrightarrow> keysMatch c'"
  unfolding keysMatch_def by auto

lemma keysMatch_rememberLoop: "keysMatch c \<Longrightarrow> keysMatch (rememberLoop ex js c)"
  by (induction js arbitrary: c) (auto simp: Let_def keysMatch_update)

lemma snapshotLoop_eq:
  "snapshotLoop now es (r, c) =
     (r @ map (\<lambda>p. job (snd p)) (filter (\<lambda>p. expiresAt (snd p) \<ge> now) es),
      filter (\<lambda>p. fst p \<notin> fst ` {q \<in> set es. expiresAt (snd q) < now}) c)"
proof (induction es arbitrary: r c)
  case Nil
  then show ?case by simp
next
  case (Cons p es)
  obtain k e where p: "p = (k, e)" by (cases p)
  show ?case
  proof (cases "expiresAt e \<ge> now")
    case True
    then show ?thesis
      by (simp add: p Cons.IH) (rule filter_cong, auto)
  next
    case False
    then show ?thesis
      by (simp add: p Cons.IH AList.delete_eq)
         (rule filter_cong, simp, force intro: rev_image_eqI [where x = "(k, e)"])
  qed
qed

lemma snapshot_jobs:
  "fst (getCachedJobsSnapshot now c) =
     map (\<lambda>p. job (snd p)) (filter (\<lambda>p. expiresAt (snd p) \<ge> now) c)"
  by (simp add: getCachedJobsSnapshot_def snapshotLoop_eq)

lemma snapshot_cache_subset: "set (snd (getCachedJobsSnapshot now c)) \<subseteq> set c"
  by (auto simp: getCachedJobsSnapshot_def snapshotLoop_eq)

lemma snapshot_cache_live:
  "p \<in> set (snd (getCachedJobsSnapshot now c)) \<Longrightarrow> expiresAt (snd p) \<ge> now"
  by (force simp: getCachedJobsSnapshot_def snapshotLoop_eq)

lemma snapshot_cache_distinct:
  assumes "distinct (map fst c)"
  shows "snd (getCachedJobsSnapshot now c) = filter (\<lambda>p. expiresAt (snd p) \<ge> now) c"
proof -
  have "fst p \<notin> fst ` {q \<in> set c. expiresAt (snd q) < now} \<longleftrightarrow> expiresAt (snd p) \<ge> now"
    if "p \<in> set c" for p
  proof
    assume "fst p \<notin> fst ` {q \<in> set c. expiresAt (snd q) < now}"
    with that show "expiresAt (snd p) \<ge> now" by force
  next
    assume live: "expiresAt (snd p) \<ge> now"
    show "fst p \<notin> fst ` {q \<in> set c. expiresAt (snd q) < now}"
    proof
      assume "fst p \<in> fst ` {q \<in> set c. expiresAt (snd q) < now}"
      then obtain q where q: "q \<in> set c" "expiresAt (snd q) < now" "fst q = fst p" by auto
      with assms that have "q = p"
        by (metis eq_key_imp_eq_value prod.collapse)
      with q live show False by simp
    qed
  qed
  then show ?thesis
    by (simp add: getCachedJobsSnapshot_def snapshotLoop_eq cong: filter_cong)
qed

lemma get_cache_subset: "set (snd (getJobFromCache h now c)) \<subseteq> set c"
  using set_delete_subset [of h c]
  by (auto simp: getJobFromCache_def split: option.splits)

lemma get_cache_distinct:
  "distinct (map fst c) \<Longrightarrow> distinct (map fst (snd (getJobFromCache h now c)))"
  by (auto simp: getJobFromCache_def distinct_delete split: option.splits)

lemma snapshot_distinct:
  "distinct (map fst c) \<Longrightarrow> distinct (map fst (snd (getCachedJobsSnapshot now c)))"
  by (simp add: snapshot_cache_distinct distinct_map_filter)


lemma keysMatch_runOps: "keysMatch c \<Longrightarrow> keysMatch (runOps ops c)"
proof (induction ops arbitrary: c)
  case Nil
  then show ?case by simp
next
  case (Cons op ops)
  have "keysMatch (applyOp op c)"
  proof (cases op)
    case (Remember jobs now)
    with Cons.prems show ?thesis by (simp add: rememberJobs_def keysMatch_rememberLoop)
  next
    case (Get h now)
    with Cons.prems show ?thesis by (simp add: keysMatch_subset [OF _ get_cache_subset])
  next
    case (Snapshot now)
    with Cons.prems show ?thesis by (simp add: keysMatch_subset [OF _ snapshot_cache_subset])
  qed
  then show ?case by (simp add: Cons.IH)
qed

lemma distinct_runOps: "distinct (map fst c) \<Longrightarrow> distinct (map fst (runOps ops c))"
proof (induction ops arbitrary: c)
  case Nil
  then show ?case by simp
next
  case (Cons op ops)
  have "distinct (map fst (applyOp op c))"
    using Cons.prems
    by (cases op) (simp_all add: rememberJobs_def distinct_rememberLoop get_cache_distinct snapshot_distinct)
  then show ?case by (simp add: Cons.IH)
qed

lemma set_rememberLoop:
  "p \<in> set (rememberLoop ex js c) \<Longrightarrow>
     p \<in> set c \<or> (job (snd p) \<in> set js \<and> fst p = extractHashFromSlug (slug (job (snd p))))"
proof (induction js arbitrary: c)
  case Nil
  then show ?case by simp
next
  case (Cons j js)
  let ?c = "AList.update (extractHashFromSlug (slug j)) \<lparr> job = j, expiresAt = ex \<rparr> c"
  from Cons.prems have "p \<in> set (rememberLoop ex js ?c)" by (simp add: Let_def)
  then have "p \<in> set ?c \<or> (job (snd p) \<in> set js \<and> fst p = extractHashFromSlug (slug (job (snd p))))"
    by (rule Cons.IH)
  then show ?case
    using set_update_subset [of "extractHashFromSlug (slug j)" "\<lparr> job = j, expiresAt = ex \<rparr>" c]
    by auto
qed

text \<open>
  C3: remember a list of jobs, then look up a hash \<open>h\<close> that occurs among them while
  the clock has not passed the expiration just computed (\<open>now + JOB_CACHE_TTL_MS\<close>):
  the lookup returns the job record of the list whose slug's hash is \<open>h\<close>, and leaves
  the cache as it is. Where several records of the list share the hash, each insert
  overwrote the one before, and the record returned is the last of them.
\<close>

theorem remember_then_get:
  assumes "h \<in> set (map (\<lambda>j. extractHashFromSlug (slug j)) jobs)"
    and "now' \<le> now + JOB_CACHE_TTL_MS"
  shows "fst (getJobFromCache h now' (rememberJobs jobs now c)) =
           Some (last (filter (\<lambda>j. extractHashFromSlug (slug j) = h) jobs)) \<and>
         last (filter (\<lambda>j. extractHashFromSlug (slug j) = h) jobs) \<in> set jobs \<and>
         extractHashFromSlug (slug (last (filter (\<lambda>j. extractHashFromSlug (slug j) = h) jobs))) = h \<and>
         snd (getJobFromCache h now' (rememberJobs jobs now c)) = rememberJobs jobs now c"
proof -
  let ?hit = "filter (\<lambda>j. extractHashFromSlug (slug j) = h) jobs"
  from assms(1) have ne: "?hit \<noteq> []" by (auto simp: filter_empty_conv)
  then have "last ?hit \<in> set ?hit" by (rule last_in_set)
  then have mem: "last ?hit \<in> set jobs" and hash: "extractHashFromSlug (slug (last ?hit)) = h"
    by auto
  from assms(1)
  have "map_of (rememberJobs jobs now c) h = Some \<lparr> job = last ?hit, expiresAt = now + JOB_CACHE_TTL_MS \<rparr>"
    by (simp add: rememberJobs_def map_of_rememberLoop)
  with assms(2) have
    "getJobFromCache h now' (rememberJobs jobs now c) = (Some (last ?hit), rememberJobs jobs now c)"
    by (simp add: getJobFromCache_def)
  with mem hash show ?thesis by simp
qed

theorem remember_then_get_witness:
  "str ''b'' \<in> set (map (\<lambda>j. extractHashFromSlug (slug j)) [exampleJob (str ''a-b'')]) \<and>
   (1 :: int) \<le> 0 + JOB_CACHE_TTL_MS \<and>
   fst (getJobFromCache (str ''b'') 1 (rememberJobs [exampleJob (str ''a-b'')] 0 [])) =
     Some (exampleJob (str ''a-b''))"
proof -
  have k: "extractHashFromSlug (slug (exampleJob (str ''a-b''))) = str ''b''"
    by code_simp
  have h1: "str ''b'' \<in> set (map (\<lambda>j. extractHashFromSlug (slug j)) [exampleJob (str ''a-b'')])"
    by (simp add: k)
  have h2: "(1 :: int) \<le> 0 + JOB_CACHE_TTL_MS"
    by (simp add: JOB_CACHE_TTL_MS_def)
  show ?thesis
    using h1 h2 remember_then_get [OF h1 h2, of "[]"] by (simp add: k)
qed

text \<open>
  C4: in a cache whose keys are the hashes of its jobs' slugs, once the clock is past the
  expiration of an entry, a lookup of its hash returns nothing and deletes the entry, and
  its job is in no later snapshot, whatever the time of that snapshot. A snapshot taken
  instead of the lookup leaves the job out as well; it returns the jobs of exactly the
  entries that have not expired and keeps exactly those entries in the cache.
\<close>

theorem expired_entry_evicted:
  assumes "distinct (map fst c)" and "keysMatch c"
    and "map_of c h = Some e" and "expiresAt e < now"
  shows "getJobFromCache h now c = (None, AList.delete h c) \<and>
         map_of (snd (getJobFromCache h now c)) h = None \<and>
         job e \<notin> set (fst (getCachedJobsSnapshot now' (snd (getJobFromCache h now c)))) \<and>
         job e \<notin> set (fst (getCachedJobsSnapshot now c)) \<and>
         fst (getCachedJobsSnapshot now c) =
           map (\<lambda>p. job (snd p)) (filter (\<lambda>p. expiresAt (snd p) \<ge> now) c) \<and>
         snd (getCachedJobsSnapshot now c) = filter (\<lambda>p. expiresAt (snd p) \<ge> now) c"
proof -
  have get: "getJobFromCache h now c = (None, AList.delete h c)"
    using assms(3,4) by (simp add: getJobFromCache_def)
  have gone: "map_of (AList.delete h c) h = None"
    by (simp add: delete_conv')
  from assms(3) have mem: "(h, e) \<in> set c" by (rule map_of_SomeD)
  with assms(2) have key: "extractHashFromSlug (slug (job e)) = h"
    by (auto simp: keysMatch_def)
  have same_key: "fst p = h" if "p \<in> set c" "job (snd p) = job e" for p
  proof -
    from that(1) assms(2) have "extractHashFromSlug (slug (job (snd p))) = fst p"
      by (cases p) (auto simp: keysMatch_def)
    with that(2) key show ?thesis by simp
  qed
  have later: "job e \<notin> set (fst (getCachedJobsSnapshot now' (AList.delete h c)))"
  proof
    assume "job e \<in> set (fst (getCachedJobsSnapshot now' (AList.delete h c)))"
    then obtain p where p: "p \<in> set (AList.delete h c)" "job (snd p) = job e"
      by (auto simp: snapshot_jobs)
    then have "p \<in> set c" and "fst p \<noteq> h" by (auto simp: AList.delete_eq)
    with p(2) same_key show False by blast
  qed
  have now: "job e \<notin> set (fst (getCachedJobsSnapshot now c))"
  proof
    assume "job e \<in> set (fst (getCachedJobsSnapshot now c))"
    then obtain p where p: "p \<in> set c" "job (snd p) = job e" "expiresAt (snd p) \<ge> now"
      by (auto simp: snapshot_jobs)
    then have "fst p = h" using same_key by blast
    with p(1) have "(h, snd p) \<in> set c" by (metis prod.collapse)
    with assms(1) mem have "snd p = e" by (metis eq_key_imp_eq_value)
    with p(3) assms(4) show False by simp
  qed
  show ?thesis
    using get gone later now assms(1)
    by (simp add: snapshot_jobs snapshot_cache_distinct)
qed

theorem expired_entry_evicted_witness:
  "distinct (map fst [(str ''b'', \<lparr> job = exampleJob (str ''a-b''), expiresAt = 5 \<rparr>)]) \<and>
   keysMatch [(str ''b'', \<lparr> job = exampleJob (str ''a-b''), expiresAt = 5 \<rparr>)] \<and>
   map_of [(str ''b'', \<lparr> job = exampleJob (str ''a-b''), expiresAt = 5 \<rparr>)] (str ''b'') =
     Some \<lparr> job = exampleJob (str ''a-b''), expiresAt = 5 \<rparr> \<and>
   expiresAt \<lparr> job = exampleJob (str ''a-b''), expiresAt = 5 \<rparr> < 6 \<and>
   getJobFromCache (str ''b'') 6 [(str ''b'', \<lparr> job = exampleJob (str ''a-b''), expiresAt = 5 \<rparr>)] =
     (None, []) \<and>
   getCachedJobsSnapshot 6 [(str ''b'', \<lparr> job = exampleJob (str ''a-b''), expiresAt = 5 \<rparr>)] = ([], [])"
proof -
  let ?e = "\<lparr> job = exampleJob (str ''a-b''), expiresAt = 5 \<rparr>"
  let ?c = "[(str ''b'', ?e)]"
  have k: "extractHashFromSlug (slug (exampleJob (str ''a-b''))) = str ''b''"
    by code_simp
  have h1: "distinct (map fst ?c)" by simp
  have h2: "keysMatch ?c" by (simp add: keysMatch_def k)
  have h3: "map_of ?c (str ''b'') = Some ?e" by simp
  have h4: "expiresAt ?e < 6" by simp
  show ?thesis
    using h1 h2 h3 h4 expired_entry_evicted [OF h1 h2 h3 h4, of 6]
    by (simp add: prod_eq_iff)
qed

text \<open>
  C9: after any sequence of \<open>rememberJobs\<close>, \<open>getJobFromCache\<close> and
  \<open>getCachedJobsSnapshot\<close> from the empty cache, every key of the cache is the hash of
  the slug of the job stored under it (and occurs once). The two read paths only remove
  entries, and every entry of the cache after \<open>rememberJobs\<close> was there before or
  holds a job of the list under the hash of its slug.
\<close>

theorem cache_keys_invariant:
  "keysMatch (runOps ops []) \<and> distinct (map fst (runOps ops [])) \<and>
   set (snd (getJobFromCache h now c)) \<subseteq> set c \<and>
   set (snd (getCachedJobsSnapshot now c)) \<subseteq> set c \<and>
   list_all (\<lambda>p. p \<in> set c \<or>
                (job (snd p) \<in> set jobs \<and> fst p = extractHashFromSlug (slug (job (snd p)))))
     (rememberJobs jobs now c)"
proof -
  have "keysMatch []" by (simp add: keysMatch_def)
  then have "keysMatch (runOps ops [])" by (rule keysMatch_runOps)
  moreover have "distinct (map fst (runOps ops []))" by (rule distinct_runOps) simp
  ultimately show ?thesis
    by (auto simp: get_cache_subset snapshot_cache_subset list_all_iff rememberJobs_def
             dest: set_rememberLoop)
qed

theorem cache_keys_invariant_witness:
  "runOps [Remember [exampleJob (str ''a-b'')] 0] [] =
     [(str ''b'', \<lparr> job = exampleJob (str ''a-b''), expiresAt = 900000 \<rparr>)] \<and>
   extractHashFromSlug (slug (exampleJob (str ''a-b''))) = str ''b''"
proof -
  have k: "extractHashFromSlug (slug (exampleJob (str ''a-b''))) = str ''b''"
    by code_simp
  have r: "runOps [Remember [exampleJob (str ''a-b'')] 0] [] =
     [(str ''b'', \<lparr> job = exampleJob (str ''a-b''), expiresAt = 900000 \<rparr>)]"
    by (simp add: rememberJobs_def JOB_CACHE_TTL_MS_def k)
  from cache_keys_invariant [of "[Remember [exampleJob (str ''a-b'')] 0]"]
  have "keysMatch (runOps [Remember [exampleJob (str ''a-b'')] 0] [])" by simp
  with r show ?thesis by (simp add: keysMatch_def)
qed

section \<open>Properties of the search client, the resolver and the sitemap\<close>

lemma str_Cons_not_Nil: "str (c # cs) \<noteq> []"
  by (simp add: str_def)

lemma missingKeyMessage_not_Nil: "missingKeyMessage \<noteq> []"
  by (simp add: missingKeyMessage_def str_def)

lemma searchJobs_Inr:
  "fst (searchJobs pf w now criteria s) =
     (case fst (cachedSearch pf w now (buildQueryString criteria (getRequestMetadata w)) s) of
        Inr response \<Rightarrow> Inr response
      | Inl err \<Rightarrow> Inr (emptyResponse (Some (thrownMessage err))))"
  by (simp add: searchJobs_def Let_def split: prod.splits sum.splits)

lemma searchJobs_state:
  "snd (searchJobs pf w now criteria s) =
     snd (cachedSearch pf w now (buildQueryString criteria (getRequestMetadata w)) s)"
  by (simp add: searchJobs_def Let_def split: prod.splits sum.splits)

lemma fetchAndParse_log:
  "length (fetchLog (snd (fetchAndParse pf w now qs s))) \<le> Suc (length (fetchLog s))"
  by (simp add: fetchAndParse_def Let_def split: sum.splits fetch_outcome.splits option.splits)

lemma cachedSearch_log:
  "length (fetchLog (snd (cachedSearch pf w now qs s))) \<le> Suc (length (fetchLog s))"
  by (simp add: cachedSearch_def fetchAndParse_log split: option.splits)

lemma fetchAndParse_empty_message:
  assumes "fst (fetchAndParse pf w now qs s) = Inl (ErrorObject [])"
  shows "\<exists>req. fetch w req = FetchRejected (ErrorObject []) \<or>
           (\<exists>r. fetch w req = FetchResponse r \<and>
                (body_text r = Inl (ErrorObject []) \<or> body_json r = Inl (ErrorObject [])))"
  using assms
  by (auto simp: fetchAndParse_def buildAuthHeader_def ensureApiKey_def Let_def
        missingKeyMessage_not_Nil str_def
      split: sum.splits fetch_outcome.splits option.splits if_splits)


lemma cachedSearch_empty_message:
  assumes "fst (cachedSearch pf w now qs s) = Inl (ErrorObject [])"
  shows "\<exists>req. fetch w req = FetchRejected (ErrorObject []) \<or>
           (\<exists>r. fetch w req = FetchResponse r \<and>
                (body_text r = Inl (ErrorObject []) \<or> body_json r = Inl (ErrorObject [])))"
proof -
  from assms have "fst (fetchAndParse pf w now qs s) = Inl (ErrorObject [])"
    by (simp add: cachedSearch_def split: option.splits)
  then show ?thesis by (rule fetchAndParse_empty_message)
qed

lemma thrownMessage_empty: "thrownMessage err = [] \<Longrightarrow> err = ErrorObject []"
  by (cases err) (simp_all add: thrownMessage_def str_def)

text \<open>
  C1: the claim has the message of the returned response never empty. It is the message
  of the thrown error as it is: when \<open>fetch\<close> rejects with an \<open>Error\<close> whose message
  is empty, \<open>searchJobs\<close> returns the error-tagged response with the empty message.
\<close>

theorem searchJobs_empty_message_counterexample:
  "fst (cachedSearch asciiPlatform
          (exampleWorld (Some (str ''k'')) (FetchRejected (ErrorObject []))) 0
          (buildQueryString noCriteria
             (getRequestMetadata (exampleWorld (Some (str ''k'')) (FetchRejected (ErrorObject [])))))
          initialState) = Inl (ErrorObject []) \<and>
   fst (searchJobs asciiPlatform
          (exampleWorld (Some (str ''k'')) (FetchRejected (ErrorObject []))) 0 noCriteria
          initialState) = Inr (emptyResponse (Some [])) \<and>
   res_message (emptyResponse (Some [])) = Some []"
proof -
  let ?w = "exampleWorld (Some (str ''k'')) (FetchRejected (ErrorObject []))"
  have k: "str ''k'' \<noteq> []" by (simp add: str_def)
  have h: "fst (cachedSearch asciiPlatform ?w 0
          (buildQueryString noCriteria (getRequestMetadata ?w)) initialState) = Inl (ErrorObject [])"
    by (simp add: cachedSearch_def fetchAndParse_def exampleWorld_def exampleEnv_def
          buildAuthHeader_def ensureApiKey_def k Let_def)
  then show ?thesis
    by (simp add: searchJobs_Inr thrownMessage_def emptyResponse_def)
qed

text \<open>
  C1, as the code has it: whatever the criteria, if the fetch-and-parse step behind
  \<open>cachedSearch\<close> throws, \<open>searchJobs\<close> returns normally, with \<open>emptyResponse\<close> of
  the message of the thrown value: type \<open>"ERROR"\<close>, no jobs, 0 hits and 1 page. The
  message is the message of the thrown \<open>Error\<close> (a fixed text for a thrown value that
  is not an \<open>Error\<close>). It is empty only if the runtime itself (\<open>fetch\<close>, \<open>text()\<close>
  or \<open>json()\<close>) threw an \<open>Error\<close> with an empty message: the errors the module
  raises, for a response that is not 2xx and for a missing credential, have a message
  that is not empty.
\<close>

theorem searchJobs_catches:
  assumes "fst (cachedSearch pf w now (buildQueryString criteria (getRequestMetadata w)) s) = Inl err"
  shows "fst (searchJobs pf w now criteria s) = Inr (emptyResponse (Some (thrownMessage err))) \<and>
         res_type (emptyResponse (Some (thrownMessage err))) = str ''ERROR'' \<and>
         res_message (emptyResponse (Some (thrownMessage err))) = Some (thrownMessage err) \<and>
         res_jobs (emptyResponse (Some (thrownMessage err))) = Some [] \<and>
         res_hits (emptyResponse (Some (thrownMessage err))) = Some 0 \<and>
         res_pages (emptyResponse (Some (thrownMessage err))) = Some 1 \<and>
         thrownMessage err =
           (case err of ErrorObject m \<Rightarrow> m | OtherValue \<Rightarrow> str ''Careerjet API unavailable'') \<and>
         (thrownMessage err = [] \<longrightarrow>
            (\<exists>req. fetch w req = FetchRejected (ErrorObject []) \<or>
               (\<exists>r. fetch w req = FetchResponse r \<and>
                    (body_text r = Inl (ErrorObject []) \<or> body_json r = Inl (ErrorObject [])))))"
proof -
  have 1: "fst (searchJobs pf w now criteria s) = Inr (emptyResponse (Some (thrownMessage err)))"
    using assms by (simp add: searchJobs_Inr)
  have 2: "thrownMessage err = [] \<longrightarrow>
            (\<exists>req. fetch w req = FetchRejected (ErrorObject []) \<or>
               (\<exists>r. fetch w req = FetchResponse r \<and>
                    (body_text r = Inl (ErrorObject []) \<or> body_json r = Inl (ErrorObject []))))"
  proof
    assume "thrownMessage err = []"
    then have "err = ErrorObject []" by (rule thrownMessage_empty)
    with assms show "\<exists>req. fetch w req = FetchRejected (ErrorObject []) \<or>
               (\<exists>r. fetch w req = FetchResponse r \<and>
                    (body_text r = Inl (ErrorObject []) \<or> body_json r = Inl (ErrorObject [])))"
      by (auto dest: cachedSearch_empty_message)
  qed
  have 3: "thrownMessage err =
           (case err of ErrorObject m \<Rightarrow> m | OtherValue \<Rightarrow> str ''Careerjet API unavailable'')"
    by (simp add: thrownMessage_def)
  show ?thesis
    using 1 2 3 by (simp add: emptyResponse_def)
qed

lemma natToString_500: "natToString 500 = str ''500''"
  by code_simp

theorem searchJobs_catches_witness:
  "fst (cachedSearch asciiPlatform (exampleWorld (Some (str ''k'')) serverError) 0
          (buildQueryString noCriteria (getRequestMetadata (exampleWorld (Some (str ''k'')) serverError)))
          initialState) =
     Inl (ErrorObject (str ''Careerjet API error (500): Internal Server Error'')) \<and>
   fst (searchJobs asciiPlatform (exampleWorld (Some (str ''k'')) serverError) 0 noCriteria initialState) =
     Inr (emptyResponse (Some (str ''Careerjet API error (500): Internal Server Error'')))"
proof -
  let ?w = "exampleWorld (Some (str ''k'')) serverError"
  have k: "str ''k'' \<noteq> []" by (simp add: str_def)
  have h: "fst (cachedSearch asciiPlatform ?w 0
          (buildQueryString noCriteria (getRequestMetadata ?w)) initialState) =
     Inl (ErrorObject (str ''Careerjet API error (500): Internal Server Error''))"
    by (simp add: cachedSearch_def fetchAndParse_def exampleWorld_def exampleEnv_def
          buildAuthHeader_def ensureApiKey_def k serverError_def responseOk_def jsOr_def
          natToString_500 Let_def)
       (simp add: str_def)
  show ?thesis
    using h searchJobs_catches [OF h] by (simp add: thrownMessage_def)
qed


text \<open>
  C2: the claim is that \<open>searchJobs\<close> raises the missing-credential error to its
  caller. It does not: with no API key, \<open>searchJobs\<close> returns the error-tagged
  response that carries the message of that error.
\<close>

theorem searchJobs_missing_key_counterexample:
  "CAREERJET_API_KEY (processEnv (exampleWorld None serverError)) = None \<and>
   searchJobs asciiPlatform (exampleWorld None serverError) 0 noCriteria initialState =
     (Inr (emptyResponse (Some missingKeyMessage)), initialState)"
  by (simp add: searchJobs_def cachedSearch_def fetchAndParse_def exampleWorld_def exampleEnv_def
        buildAuthHeader_def ensureApiKey_def thrownMessage_def Let_def)

text \<open>
  C2, as the code has it: when the API key is unset or empty and the response store does
  not serve the query, \<open>ensureApiKey\<close> raises the missing-credential error, the
  fetch-and-parse step ends with it before any request is sent (the state, with its log
  of requests, is unchanged), and \<open>searchJobs\<close> catches it and returns the error-tagged
  response with the message of that error.
\<close>

theorem searchJobs_missing_key:
  assumes "\<not> truthy (CAREERJET_API_KEY (processEnv w))"
    and "cacheLookup w (buildQueryString criteria (getRequestMetadata w)) = None"
  shows "ensureApiKey (processEnv w) = Inl (ErrorObject missingKeyMessage) \<and>
         fetchAndParse pf w now (buildQueryString criteria (getRequestMetadata w)) s =
           (Inl (ErrorObject missingKeyMessage), s) \<and>
         searchJobs pf w now criteria s = (Inr (emptyResponse (Some missingKeyMessage)), s)"
proof -
  from assms(1) have e: "ensureApiKey (processEnv w) = Inl (ErrorObject missingKeyMessage)"
    by (simp add: ensureApiKey_def truthy_def split: option.splits)
  then have f: "fetchAndParse pf w now (buildQueryString criteria (getRequestMetadata w)) s =
           (Inl (ErrorObject missingKeyMessage), s)"
    by (simp add: fetchAndParse_def buildAuthHeader_def)
  with assms(2) have "searchJobs pf w now criteria s = (Inr (emptyResponse (Some missingKeyMessage)), s)"
    by (simp add: searchJobs_def cachedSearch_def thrownMessage_def Let_def)
  with e f show ?thesis by simp
qed

theorem searchJobs_missing_key_witness:
  "\<not> truthy (CAREERJET_API_KEY (processEnv (exampleWorld None serverError))) \<and>
   cacheLookup (exampleWorld None serverError)
     (buildQueryString noCriteria (getRequestMetadata (exampleWorld None serverError))) = None \<and>
   searchJobs asciiPlatform (exampleWorld None serverError) 7 noCriteria initialState =
     (Inr (emptyResponse (Some missingKeyMessage)), initialState)"
proof -
  let ?w = "exampleWorld None serverError"
  have h1: "\<not> truthy (CAREERJET_API_KEY (processEnv ?w))"
    by (simp add: exampleWorld_def exampleEnv_def truthy_def)
  have h2: "cacheLookup ?w (buildQueryString noCriteria (getRequestMetadata ?w)) = None"
    by (simp add: exampleWorld_def)
  show ?thesis
    using h1 h2 searchJobs_missing_key [OF h1 h2, of asciiPlatform 7 initialState] by simp
qed

text \<open>
  C7: if the cache has no live entry for the hash of the slug, and the one search issued
  with the fallback criteria (with keywords rebuilt from the slug when the criteria have
  none) returns no job whose slug has that hash, then \<open>findJobBySlug\<close> returns nothing.
  The state it leaves is the state after that single search, which sent at most one
  request: there is no second page and no second search.
\<close>

theorem findJobBySlug_not_found:
  assumes "fst (getJobFromCache (extractHashFromSlug sl) t1 (jobCache s)) = None"
    and "s1 = s\<lparr> jobCache := snd (getJobFromCache (extractHashFromSlug sl) t1 (jobCache s)) \<rparr>"
    and "criteria =
           (if \<not> truthy (keywords' fb) then fb\<lparr> keywords' := Some (keywordsFromSlug sl) \<rparr> else fb)"
    and "fst (searchJobs pf w t2 criteria s1) = Inr response"
    and "list_all (\<lambda>item. extractHashFromSlug (slug item) \<noteq> extractHashFromSlug sl)
           (nullish (res_jobs response) [])"
  shows "fst (findJobBySlug pf w t1 t2 sl fb s) = Inr None \<and>
         snd (findJobBySlug pf w t1 t2 sl fb s) = snd (searchJobs pf w t2 criteria s1) \<and>
         length (fetchLog (snd (findJobBySlug pf w t1 t2 sl fb s))) \<le> Suc (length (fetchLog s))"
proof -
  obtain c1 where g: "getJobFromCache (extractHashFromSlug sl) t1 (jobCache s) = (None, c1)"
    using assms(1) by (cases "getJobFromCache (extractHashFromSlug sl) t1 (jobCache s)") auto
  with assms(2) have s1: "s1 = s\<lparr> jobCache := c1 \<rparr>" by simp
  obtain s2 where r: "searchJobs pf w t2 criteria s1 = (Inr response, s2)"
    using assms(4) by (cases "searchJobs pf w t2 criteria s1") auto
  have none: "(case res_jobs response of None \<Rightarrow> None
               | Some js \<Rightarrow> find (\<lambda>item. extractHashFromSlug (slug item) = extractHashFromSlug sl) js)
              = None"
    using assms(5)
    by (auto simp: nullish_def list_all_iff find_None_iff split: option.splits)
  have f: "findJobBySlug pf w t1 t2 sl fb s = (Inr None, s2)"
    using g r none assms(3) s1
    by (simp add: findJobBySlug_def Let_def)
  have "length (fetchLog s2) \<le> Suc (length (fetchLog s1))"
    using cachedSearch_log [of pf w t2 "buildQueryString criteria (getRequestMetadata w)" s1]
      searchJobs_state [of pf w t2 criteria s1] r by simp
  with f r s1 show ?thesis by simp
qed

theorem findJobBySlug_not_found_witness:
  "fst (getJobFromCache (extractHashFromSlug (str ''ghost-role-abc123def0'')) 3
          (jobCache initialState)) = None \<and>
   fst (findJobBySlug asciiPlatform (exampleWorld (Some (str ''k'')) (jobsResponse [])) 3 4
          (str ''ghost-role-abc123def0'') noCriteria initialState) = Inr None"
proof -
  let ?w = "exampleWorld (Some (str ''k'')) (jobsResponse [])"
  let ?sl = "str ''ghost-role-abc123def0''"
  let ?resp = "\<lparr> res_type = str ''JOBS'', res_hits = Some 0, res_message = None,
                 res_pages = Some 1, res_response_time = None,
                 res_jobs = Some ([] :: CareerjetJob list), res_locations = None \<rparr>"
  have k: "str ''k'' \<noteq> []" by (simp add: str_def)
  have h1: "fst (getJobFromCache (extractHashFromSlug ?sl) 3 (jobCache initialState)) = None"
    by (simp add: getJobFromCache_def initialState_def)
  have h4: "fst (searchJobs asciiPlatform ?w 4
                  (if \<not> truthy (keywords' noCriteria)
                   then noCriteria\<lparr> keywords' := Some (keywordsFromSlug ?sl) \<rparr> else noCriteria)
                  (initialState\<lparr> jobCache :=
                     snd (getJobFromCache (extractHashFromSlug ?sl) 3 (jobCache initialState)) \<rparr>)) =
            Inr ?resp"
    by (simp add: searchJobs_Inr cachedSearch_def fetchAndParse_def exampleWorld_def exampleEnv_def
          buildAuthHeader_def ensureApiKey_def k jobsResponse_def responseOk_def withJobs_def
          Let_def)
  have h5: "list_all (\<lambda>item. extractHashFromSlug (slug item) \<noteq> extractHashFromSlug ?sl)
              (nullish (res_jobs ?resp) [])"
    by (simp add: nullish_def)
  show ?thesis
    using h1 findJobBySlug_not_found [OF h1 refl refl h4 h5] by simp
qed

lemma sitemap_fst:
  "fst (sitemap pf w t1 t2 clock s) =
      homeEntry (siteOrigin w) (clock (length (fst (sitemapJobs pf w t1 t2 s)))) #
      map (\<lambda>(i, j). jobEntry pf (siteOrigin w) (clock i) j)
        (zip [0..<length (fst (sitemapJobs pf w t1 t2 s))] (fst (sitemapJobs pf w t1 t2 s)))"
  by (simp add: sitemap_def Let_def split: prod.splits)

lemma sitemap_snd: "snd (sitemap pf w t1 t2 clock s) = snd (sitemapJobs pf w t1 t2 s)"
  by (simp add: sitemap_def Let_def split: prod.splits)

lemma sitemapJobs_fst:
  "fst (sitemapJobs pf w t1 t2 s) =
     (if fst (getCachedJobsSnapshot t1 (jobCache s)) = []
      then (case fst (searchJobs pf w t2 (noCriteria\<lparr> pageSize := Some 20 \<rparr>)
                        (s\<lparr> jobCache := snd (getCachedJobsSnapshot t1 (jobCache s)) \<rparr>)) of
              Inr response \<Rightarrow> nullish (res_jobs response) []
            | Inl err \<Rightarrow> [])
      else fst (getCachedJobsSnapshot t1 (jobCache s)))"
  by (auto simp: sitemapJobs_def Let_def split: prod.splits sum.splits)

text \<open>
  C8: the claim is one sitemap entry per currently cached job. With an empty cache the
  sitemap lists the jobs of a fallback search instead: here two jobs that share a hash,
  so that the sitemap has three entries while the cache held no job before the call and
  holds one after it.
\<close>

theorem sitemap_fallback_counterexample:
  "fst (getCachedJobsSnapshot 0 (jobCache initialState)) = [] \<and>
   length (fst (sitemap asciiPlatform
      (exampleWorld (Some (str ''k''))
         (jobsResponse [exampleRaw (str ''A'') None, exampleRaw (str ''B'') None]))
      0 0 frozenClock initialState)) = 3 \<and>
   length (fst (getCachedJobsSnapshot 0 (jobCache (snd (sitemap asciiPlatform
      (exampleWorld (Some (str ''k''))
         (jobsResponse [exampleRaw (str ''A'') None, exampleRaw (str ''B'') None]))
      0 0 frozenClock initialState))))) = 1"
proof -
  let ?w = "exampleWorld (Some (str ''k''))
         (jobsResponse [exampleRaw (str ''A'') None, exampleRaw (str ''B'') None])"
  have k: "str ''k'' \<noteq> []" by (simp add: str_def)
  have snap0: "getCachedJobsSnapshot 0 [] = ([], [])"
    by (simp add: getCachedJobsSnapshot_def)
  then have snap: "getCachedJobsSnapshot 0 (jobCache initialState) = ([], [])"
    by (simp add: initialState_def)
  have hash: "extractHashFromSlug (slug (normalizeJob pf raw)) = urlHash (nullish (raw_url raw) [])"
    for pf raw
    by (simp add: normalizeJob_def Let_def extractHash_makeJobSlug)
  have sm1: "fst (sitemapJobs asciiPlatform ?w 0 0 initialState) =
      map (normalizeJob asciiPlatform) [exampleRaw (str ''A'') None, exampleRaw (str ''B'') None]"
    by (simp add: sitemapJobs_def snap0 searchJobs_def cachedSearch_def fetchAndParse_def
          exampleWorld_def exampleEnv_def buildAuthHeader_def ensureApiKey_def k jobsResponse_def
          responseOk_def withJobs_def Let_def nullish_def initialState_def)
  have sm2: "jobCache (snd (sitemapJobs asciiPlatform ?w 0 0 initialState)) =
      [(urlHash [], \<lparr> job = normalizeJob asciiPlatform (exampleRaw (str ''B'') None),
                      expiresAt = 0 + JOB_CACHE_TTL_MS \<rparr>)]"
    by (simp add: sitemapJobs_def snap0 searchJobs_def cachedSearch_def fetchAndParse_def
          exampleWorld_def exampleEnv_def buildAuthHeader_def ensureApiKey_def k jobsResponse_def
          responseOk_def withJobs_def Let_def rememberJobs_def hash nullish_def initialState_def)
       (simp add: exampleRaw_def)
  show ?thesis
    by (simp add: snap sitemap_fst sitemap_snd sm1 sm2 snapshot_jobs JOB_CACHE_TTL_MS_def)
qed


text \<open>
  C8, as the code has it: the sitemap is the home page entry followed by exactly one
  entry per job of a list, in order. The list is the snapshot of the cache (the jobs of
  its entries that have not expired) when that is not empty, and otherwise the jobs of
  one search with page size 20 (none if the response has no jobs). The entry of a job
  carries the job's detail URL, as last-modified the parsed posting date or the current
  time when the date does not parse, the change frequency \<open>daily\<close> and the priority
  0.6; the home page entry has the current time, \<open>hourly\<close> and priority 1.
\<close>

theorem sitemap_entries:
  assumes "snap = fst (getCachedJobsSnapshot t1 (jobCache s))"
    and "s1 = s\<lparr> jobCache := snd (getCachedJobsSnapshot t1 (jobCache s)) \<rparr>"
    and "jobs = (if snap = []
                 then (case fst (searchJobs pf w t2 (noCriteria\<lparr> pageSize := Some 20 \<rparr>) s1) of
                         Inr response \<Rightarrow> nullish (res_jobs response) []
                       | Inl err \<Rightarrow> [])
                 else snap)"
    and "entries = fst (sitemap pf w t1 t2 clock s)"
  shows "snap = map (\<lambda>p. job (snd p)) (filter (\<lambda>p. expiresAt (snd p) \<ge> t1) (jobCache s)) \<and>
         length entries = Suc (length jobs) \<and>
         entries ! 0 =
           \<lparr> sm_url = siteOrigin w @ str ''/'', sm_lastModified = clock (length jobs),
             sm_changeFrequency = str ''hourly'', sm_priority = 1 \<rparr> \<and>
         (\<forall>i < length jobs.
            entries ! Suc i =
              \<lparr> sm_url = siteOrigin w @ str ''/jobs/'' @ slug (jobs ! i),
                sm_lastModified =
                  (case dateParse pf (date (jobs ! i)) of None \<Rightarrow> clock i | Some parsed \<Rightarrow> parsed),
                sm_changeFrequency = str ''daily'', sm_priority = 0.6 \<rparr>)"
proof -
  have j: "jobs = fst (sitemapJobs pf w t1 t2 s)"
    using assms(1-3) by (simp add: sitemapJobs_fst)
  have e: "entries = homeEntry (siteOrigin w) (clock (length jobs)) #
      map (\<lambda>(i, j). jobEntry pf (siteOrigin w) (clock i) j) (zip [0..<length jobs] jobs)"
    using assms(4) j by (simp add: sitemap_fst)
  have "snap = map (\<lambda>p. job (snd p)) (filter (\<lambda>p. expiresAt (snd p) \<ge> t1) (jobCache s))"
    using assms(1) by (simp add: snapshot_jobs)
  moreover have "length entries = Suc (length jobs)"
    by (simp add: e)
  moreover have "entries ! 0 =
           \<lparr> sm_url = siteOrigin w @ str ''/'', sm_lastModified = clock (length jobs),
             sm_changeFrequency = str ''hourly'', sm_priority = 1 \<rparr>"
    by (simp add: e homeEntry_def)
  moreover have "entries ! Suc i =
              \<lparr> sm_url = siteOrigin w @ str ''/jobs/'' @ slug (jobs ! i),
                sm_lastModified =
                  (case dateParse pf (date (jobs ! i)) of None \<Rightarrow> clock i | Some parsed \<Rightarrow> parsed),
                sm_changeFrequency = str ''daily'', sm_priority = 0.6 \<rparr>"
    if "i < length jobs" for i
    using that by (simp add: e jobEntry_def)
  ultimately show ?thesis by blast
qed

theorem sitemap_entries_witness:
  "length (fst (sitemap asciiPlatform (exampleWorld None serverError) 0 0 frozenClock cachedState)) = 3 \<and>
   fst (sitemap asciiPlatform (exampleWorld None serverError) 0 0 frozenClock cachedState) ! Suc 0 =
     \<lparr> sm_url = str ''https://jobhub.example.com/jobs/a-b'', sm_lastModified = 1704067200000,
       sm_changeFrequency = str ''daily'', sm_priority = 0.6 \<rparr> \<and>
   fst (sitemap asciiPlatform (exampleWorld None serverError) 0 0 frozenClock cachedState) ! Suc (Suc 0) =
     \<lparr> sm_url = str ''https://jobhub.example.com/jobs/c-d'', sm_lastModified = 1000,
       sm_changeFrequency = str ''daily'', sm_priority = 0.6 \<rparr>"
proof -
  let ?w = "exampleWorld None serverError"
  have snap: "getCachedJobsSnapshot 0 (jobCache cachedState) =
      ([exampleJob (str ''a-b''), undatedJob (str ''c-d'')], jobCache cachedState)"
    by (simp add: getCachedJobsSnapshot_def cachedState_def)
  have origin: "siteOrigin ?w = str ''https://jobhub.example.com''"
    by (simp add: siteOrigin_def exampleWorld_def exampleEnv_def nullish_def stripTrailingSlash_def
          str_def)
  have dated: "dateParse asciiPlatform (date (exampleJob (str ''a-b''))) = Some 1704067200000"
    by code_simp
  have undated: "dateParse asciiPlatform (date (undatedJob (str ''c-d''))) = None"
    by code_simp
  have slugs: "slug (exampleJob (str ''a-b'')) = str ''a-b''"
    "slug (undatedJob (str ''c-d'')) = str ''c-d''"
    by (simp_all add: exampleJob_def undatedJob_def)
  from sitemap_entries [OF refl refl refl refl, where pf = asciiPlatform and w = ?w and ?t1.0 = 0
      and ?t2.0 = 0 and s = cachedState and clock = frozenClock]
  show ?thesis
    by (simp add: snap origin dated undated slugs frozenClock_def All_less_Suc)
       (simp add: str_def)
qed

end
